theory Spec2Isabelle
  imports Main
begin

section \<open>XML documents as ElementTree sees them\<close>

text \<open>
  Every object of \<^verbatim>\<open>jssobjects.py\<close> and every response of \<^verbatim>\<open>jss.py\<close> is an
  \<^verbatim>\<open>xml.etree.ElementTree.Element\<close>: a tag, an optional text (\<open>elem_text\<close>) and an ordered list of
  child elements. \<^verbatim>\<open>len(elem)\<close> is the number of children and iterating an element
  yields its children in document order. Attributes and tails are never read or written
  by the functions embedded here and are left out.
\<close>

datatype element = Element (tag: string) (elem_text: "string option") (children: "element list")

text \<open>
  The paths the source passes to \<^verbatim>\<open>find\<close> and \<^verbatim>\<open>findtext\<close> are literals of the form
  \<^verbatim>\<open>tag/tag/...\<close>. ElementPath tokenises such a path at the slashes and applies one
  child selector per tag to the stream of elements selected so far, starting from the
  context element alone.
\<close>

fun split_path :: "string \<Rightarrow> string list" where
  "split_path [] = [[]]"
| "split_path (c # cs) =
     (if c = CHR ''/'' then [] # split_path cs
      else (case split_path cs of [] \<Rightarrow> [[c]] | s # ss \<Rightarrow> (c # s) # ss))"

definition prepare_child :: "string \<Rightarrow> element list \<Rightarrow> element list" where
  "prepare_child t result = concat (map (\<lambda>elem. filter (\<lambda>e. tag e = t) (children elem)) result)"

definition select_from :: "string list \<Rightarrow> element list \<Rightarrow> element list" where
  "select_from ts result = foldl (\<lambda>result t. prepare_child t result) result ts"

definition iterfind :: "element \<Rightarrow> string \<Rightarrow> element list" where
  "iterfind elem path = select_from (split_path path) [elem]"

definition find_elem :: "element \<Rightarrow> string \<Rightarrow> element option" where
  "find_elem elem path = (case iterfind elem path of [] \<Rightarrow> None | e # _ \<Rightarrow> Some e)"

text \<open>
  \<^verbatim>\<open>findtext\<close> returns \<^verbatim>\<open>elem.text or ""\<close> for the first match and the default
  \<^verbatim>\<open>None\<close> when nothing matches.
\<close>

definition findtext :: "element \<Rightarrow> string \<Rightarrow> string option" where
  "findtext elem path =
     (case find_elem elem path of
        None \<Rightarrow> None
      | Some e \<Rightarrow> Some (case elem_text e of None \<Rightarrow> [] | Some s \<Rightarrow> s))"

text \<open>Python's truth value of an optional string: \<^verbatim>\<open>None\<close> and \<^verbatim>\<open>""\<close> are false.\<close>

fun truthy :: "string option \<Rightarrow> bool" where
  "truthy None = False"
| "truthy (Some s) = (s \<noteq> [])"

text \<open>\<^verbatim>\<open>a or b\<close> on optional strings.\<close>

definition py_or :: "string option \<Rightarrow> string option \<Rightarrow> string option" where
  "py_or a b = (if truthy a then a else b)"

section \<open>Errors\<close>

text \<open>
  The exceptions the embedded functions raise, with their message where the source gives
  one. \<^verbatim>\<open>ParseError\<close> is ElementTree's, \<^verbatim>\<open>RequestException\<close> is the transport's,
  \<^verbatim>\<open>IOError\<close> is \<^verbatim>\<open>open\<close>'s.
\<close>

datatype error =
    JSSAuthenticationError string
  | JSSGetError string
  | JSSMethodNotAllowedError string
  | JSSFileUploadParameterError string
  | ParseError
  | RequestException
  | TypeError
  | IOError

section \<open>Device accessors\<close>

text \<open>
  \<^verbatim>\<open>Computer.mac_addresses\<close>: the \<^verbatim>\<open>return\<close> sits inside the \<^verbatim>\<open>if\<close>, so the
  function falls off its end (returning \<^verbatim>\<open>None\<close>) when the secondary address is
  missing or empty. The list holds \<^verbatim>\<open>findtext\<close> results, which may be \<^verbatim>\<open>None\<close>.
\<close>

definition mac_addresses :: "element \<Rightarrow> string option list option" where
  "mac_addresses self =
     (let mac_addresses = [findtext self ''general/mac_address''] in
      if truthy (findtext self ''general/alt_mac_address'')
      then Some (mac_addresses @ [findtext self ''general/alt_mac_address''])
      else None)"

definition wifi_mac_address :: "element \<Rightarrow> string option" where
  "wifi_mac_address self = findtext self ''general/wifi_mac_address''"

definition bluetooth_mac_address :: "element \<Rightarrow> string option" where
  "bluetooth_mac_address self =
     py_or (findtext self ''general/bluetooth_mac_address'')
           (findtext self ''general/mac_address'')"

section \<open>LDAP group membership\<close>

text \<open>
  \<^verbatim>\<open>LDAPServer.is_user_in_group\<close>. The object's own address \<^verbatim>\<open>self.url\<close> and the
  session's \<^verbatim>\<open>get\<close> are parameters: \<open>jss_get\<close> answers a path with the parsed
  response or with the error it raises.
\<close>

definition is_user_in_group ::
  "(string \<Rightarrow> error + element) \<Rightarrow> string \<Rightarrow> string \<Rightarrow> string \<Rightarrow> error + bool" where
  "is_user_in_group jss_get url user grp =
     (let search_url = url @ ''/'' @ ''group'' @ ''/'' @ grp @ ''/'' @ ''user'' @ ''/'' @ user in
      case jss_get search_url of
        Inl e \<Rightarrow> Inl e
      | Inr response \<Rightarrow>
          (let len = length (children response) in
           if len = 1 then Inr False
           else if len = 2 then
             (if findtext response ''ldap_user/username'' = Some user
              then (if findtext response ''ldap_user/is_member'' = Some ''Yes''
                    then Inr True else Inr False)
              else Inr False)
           else if length (children response) \<ge> 2 then Inl (JSSGetError ''Unexpected response.'')
           else Inr False))"

section \<open>Python string formatting\<close>

text \<open>\<^verbatim>\<open>str\<close> of an integer: decimal digits, with a minus sign for a negative one.\<close>

definition digit_char :: "nat \<Rightarrow> char" where
  "digit_char d = ''0123456789'' ! (d mod 10)"

function str_nat :: "nat \<Rightarrow> string" where
  "str_nat n = (if n < 10 then [digit_char n] else str_nat (n div 10) @ [digit_char (n mod 10)])"
  by pat_completeness auto
termination
  by (relation "measure id") auto

definition str_int :: "int \<Rightarrow> string" where
  "str_int i = (if i < 0 then CHR ''-'' # str_nat (nat (- i)) else str_nat (nat i))"

text \<open>
  An identifier is an \<^verbatim>\<open>int\<close> or a \<^verbatim>\<open>str\<close>; \<^verbatim>\<open>str(id_)\<close> leaves a string as it is.
\<close>

datatype key = IntKey int | StrKey string

fun str_key :: "key \<Rightarrow> string" where
  "str_key (IntKey i) = str_int i"
| "str_key (StrKey s) = s"

text \<open>\<^verbatim>\<open>%s\<close> of a value that may be \<^verbatim>\<open>None\<close>.\<close>

fun fmt_s :: "string option \<Rightarrow> string" where
  "fmt_s None = ''None''"
| "fmt_s (Some s) = s"

text \<open>\<^verbatim>\<open>sep.join(parts)\<close>.\<close>

fun join :: "string \<Rightarrow> string list \<Rightarrow> string" where
  "join sep [] = []"
| "join sep [x] = x"
| "join sep (x # y # ys) = x @ sep @ join sep (y # ys)"

text \<open>
  \<^verbatim>\<open>"%s" % lst\<close> for a list of plain strings: Python's \<^verbatim>\<open>repr\<close> of the list, each
  string between single quotes.
\<close>

definition repr_str :: "string \<Rightarrow> string" where
  "repr_str s = [CHR 0x27] @ s @ [CHR 0x27]"

definition repr_list :: "string list \<Rightarrow> string" where
  "repr_list xs = ''['' @ join '', '' (map repr_str xs) @ '']''"

section \<open>The world outside: transport, files, standard output\<close>

datatype verb = GET | POST | PUT | DELETE

record request =
  req_method :: verb
  req_url :: string
  req_auth :: "string \<times> string"
  req_verify :: bool
  req_body :: "string option"

record response =
  status_code :: int
  resp_text :: string

text \<open>
  What a function has done to the outside so far: the requests it has sent, the lines it
  has printed and the files it has opened, each in order. The remote service is a
  parameter \<open>http\<close>: a request is answered with a response, or the transport raises
  (\<open>None\<close>). The XML parser \<^verbatim>\<open>ElementTree.fromstring\<close> is a parameter too: the tree
  of a well-formed text, \<open>None\<close> for a text it rejects.
\<close>

record world =
  sent :: "request list"
  printed :: "string list"
  opened :: "string list"

section \<open>Resource classes\<close>

text \<open>
  A resource class is a set of class attributes: the address \<^verbatim>\<open>_url\<close>, the sub-path
  \<^verbatim>\<open>id_url\<close> of a lookup by identifier and the five capability flags \<^verbatim>\<open>can_list\<close>,
  \<^verbatim>\<open>can_get\<close>, \<^verbatim>\<open>can_put\<close>, \<^verbatim>\<open>can_post\<close> and \<^verbatim>\<open>can_delete\<close>; the name serves
  \<^verbatim>\<open>isinstance\<close>.
\<close>

record resource_class =
  cls_name :: string
  cls_url :: "string option"
  id_url :: string
  can_list :: bool
  can_get :: bool
  can_put :: bool
  can_post :: bool
  can_delete :: bool

text \<open>
  Modelled from the spec: the base classes \<^verbatim>\<open>JSSFlatObject\<close>, \<^verbatim>\<open>JSSContainerObject\<close>,
  \<^verbatim>\<open>JSSGroupObject\<close> and \<^verbatim>\<open>JSSDeviceObject\<close> (module \<^verbatim>\<open>jssobject\<close>) are not among the
  sources. The spec gives their defaults: every capability permitted, and \<^verbatim>\<open>id\<close> as
  the primary-key token. The base class of \<^verbatim>\<open>jss.py\<close> has \<^verbatim>\<open>_url = None\<close>.
\<close>

definition JSSObject :: resource_class where
  "JSSObject = \<lparr>cls_name = ''JSSObject'', cls_url = None, id_url = ''/id/'',
     can_list = True, can_get = True, can_put = True, can_post = True, can_delete = True\<rparr>"

text \<open>The classes of \<^verbatim>\<open>jssobjects.py\<close> that the embedded functions name, by their overrides.\<close>

definition Account :: resource_class where
  "Account = JSSObject\<lparr>cls_name := ''Account'', cls_url := Some ''/accounts'', id_url := ''/userid/''\<rparr>"

definition AccountGroup :: resource_class where
  "AccountGroup = JSSObject\<lparr>cls_name := ''AccountGroup'', cls_url := Some ''/accounts'',
     id_url := ''/groupid/''\<rparr>"


definition Building :: resource_class where
  "Building = JSSObject\<lparr>cls_name := ''Building'', cls_url := Some ''/buildings''\<rparr>"

definition BYOProfile :: resource_class where
  "BYOProfile = JSSObject\<lparr>cls_name := ''BYOProfile'', cls_url := Some ''/byoprofiles'',
     can_delete := False, can_post := False\<rparr>"

definition Category :: resource_class where
  "Category = JSSObject\<lparr>cls_name := ''Category'', cls_url := Some ''/categories''\<rparr>"

definition Computer :: resource_class where
  "Computer = JSSObject\<lparr>cls_name := ''Computer'', cls_url := Some ''/computers''\<rparr>"

definition ComputerCheckIn :: resource_class where
  "ComputerCheckIn = JSSObject\<lparr>cls_name := ''ComputerCheckIn'', cls_url := Some ''/computercheckin'',
     can_delete := False, can_list := False, can_post := False\<rparr>"

definition ComputerCommand :: resource_class where
  "ComputerCommand = JSSObject\<lparr>cls_name := ''ComputerCommand'', cls_url := Some ''/computercommands'',
     can_delete := False, can_put := False, can_post := False\<rparr>"

definition ComputerGroup :: resource_class where
  "ComputerGroup = JSSObject\<lparr>cls_name := ''ComputerGroup'', cls_url := Some ''/computergroups''\<rparr>"

definition ComputerInventoryCollection :: resource_class where
  "ComputerInventoryCollection = JSSObject\<lparr>cls_name := ''ComputerInventoryCollection'',
     cls_url := Some ''/computerinventorycollection'',
     can_list := False, can_post := False, can_delete := False\<rparr>"

definition ComputerInvitation :: resource_class where
  "ComputerInvitation = JSSObject\<lparr>cls_name := ''ComputerInvitation'',
     cls_url := Some ''/computerinvitations'', can_put := False\<rparr>"

definition ComputerReport :: resource_class where
  "ComputerReport = JSSObject\<lparr>cls_name := ''ComputerReport'', cls_url := Some ''/computerreports'',
     can_put := False, can_post := False, can_delete := False\<rparr>"

definition Department :: resource_class where
  "Department = JSSObject\<lparr>cls_name := ''Department'', cls_url := Some ''/departments''\<rparr>"

definition GSXConnection :: resource_class where
  "GSXConnection = JSSObject\<lparr>cls_name := ''GSXConnection'', cls_url := Some ''/gsxconnection'',
     can_list := False, can_post := False, can_delete := False\<rparr>"

definition JSSUser :: resource_class where
  "JSSUser = JSSObject\<lparr>cls_name := ''JSSUser'', cls_url := Some ''/jssuser'',
     can_list := False, can_post := False, can_put := False, can_delete := False\<rparr>"

definition LDAPServer :: resource_class where
  "LDAPServer = JSSObject\<lparr>cls_name := ''LDAPServer'', cls_url := Some ''/ldapservers''\<rparr>"

definition LDAPUsersResults :: resource_class where
  "LDAPUsersResults = JSSObject\<lparr>cls_name := ''LDAPUsersResults'',
     can_get := False, can_post := False, can_put := False, can_delete := False\<rparr>"

definition LDAPGroupsResults :: resource_class where
  "LDAPGroupsResults = JSSObject\<lparr>cls_name := ''LDAPGroupsResults'',
     can_get := False, can_post := False, can_put := False, can_delete := False\<rparr>"

definition MobileDevice :: resource_class where
  "MobileDevice = JSSObject\<lparr>cls_name := ''MobileDevice'', cls_url := Some ''/mobiledevices''\<rparr>"

definition MobileDeviceCommand :: resource_class where
  "MobileDeviceCommand = JSSObject\<lparr>cls_name := ''MobileDeviceCommand'',
     cls_url := Some ''/mobiledevicecommands'',
     can_put := False, can_delete := False, can_post := False\<rparr>"

definition MobileDeviceConfigurationProfile :: resource_class where
  "MobileDeviceConfigurationProfile = JSSObject\<lparr>cls_name := ''MobileDeviceConfigurationProfile'',
     cls_url := Some ''/mobiledeviceconfigurationprofiles''\<rparr>"

definition MobileDeviceInvitation :: resource_class where
  "MobileDeviceInvitation = JSSObject\<lparr>cls_name := ''MobileDeviceInvitation'',
     cls_url := Some ''/mobiledeviceinvitations'', can_put := False\<rparr>"

definition MobileDeviceGroup :: resource_class where
  "MobileDeviceGroup = JSSObject\<lparr>cls_name := ''MobileDeviceGroup'',
     cls_url := Some ''/mobiledevicegroups''\<rparr>"

definition Package :: resource_class where
  "Package = JSSObject\<lparr>cls_name := ''Package'', cls_url := Some ''/packages''\<rparr>"

definition Policy :: resource_class where
  "Policy = JSSObject\<lparr>cls_name := ''Policy'', cls_url := Some ''/policies''\<rparr>"


definition SMTPServer :: resource_class where
  "SMTPServer = JSSObject\<lparr>cls_name := ''SMTPServer'', cls_url := Some ''/smtpserver'',
     id_url := [], can_list := False, can_post := False\<rparr>"

section \<open>The session of \<^verbatim>\<open>jss.py\<close>\<close>

record jss_prefs =
  prefs_user :: string
  prefs_password :: string
  prefs_url :: string

record jss =
  jss_url :: string
  jss_user :: string
  jss_password :: string
  ssl_verify :: bool

definition JSS_init :: "jss_prefs option \<Rightarrow> string \<Rightarrow> string \<Rightarrow> string \<Rightarrow> bool \<Rightarrow> jss" where
  "JSS_init prefs url usr password verify =
     (let (url, usr, password) =
            (case prefs of
               Some p \<Rightarrow> (prefs_url p, prefs_user p, prefs_password p)
             | None \<Rightarrow> (url, usr, password))
      in \<lparr>jss_url = url @ ''/JSSResource'', jss_user = usr, jss_password = password,
           ssl_verify = verify\<rparr>)"

text \<open>
  \<^verbatim>\<open>JSS.get_request\<close>: one GET with the session's credentials; 401 and 404 raise, every
  other status goes on to the parser.
\<close>

definition get_request ::
  "(request \<rightharpoonup> response) \<Rightarrow> (string \<rightharpoonup> element) \<Rightarrow> jss \<Rightarrow> string \<Rightarrow> world
     \<Rightarrow> (error + element) \<times> world" where
  "get_request http fromstring self url w =
     (let rq = \<lparr>req_method = GET, req_url = url, req_auth = (jss_user self, jss_password self),
                req_verify = ssl_verify self, req_body = None\<rparr>;
          w' = w\<lparr>sent := sent w @ [rq]\<rparr>
      in case http rq of
           None \<Rightarrow> (Inl RequestException, w')
         | Some response \<Rightarrow>
             if status_code response = 401 then
               (Inl (JSSAuthenticationError
                       ''Authentication error: check the api username and password''), w')
             else if status_code response = 404 then
               (Inl (JSSGetError (''Object '' @ url @ '' does not exist!'')), w')
             else
               (case fromstring (resp_text response) of
                  None \<Rightarrow> (Inl ParseError, w')
                | Some xmldata \<Rightarrow> (Inr xmldata, w')))"

definition raw_get ::
  "(request \<rightharpoonup> response) \<Rightarrow> (string \<rightharpoonup> element) \<Rightarrow> jss \<Rightarrow> string \<Rightarrow> world
     \<Rightarrow> (error + element) \<times> world" where
  "raw_get http fromstring self path w = get_request http fromstring self (jss_url self @ path) w"

text \<open>\<^verbatim>\<open>JSS.get\<close>: with an identifier the address is printed before the request is made.\<close>

definition get ::
  "(request \<rightharpoonup> response) \<Rightarrow> (string \<rightharpoonup> element) \<Rightarrow> jss \<Rightarrow> resource_class \<Rightarrow> key option
     \<Rightarrow> world \<Rightarrow> (error + element) \<times> world" where
  "get http fromstring self obj_class ident w =
     (let url = fmt_s (cls_url obj_class) in
      case ident of
        Some k \<Rightarrow>
          (let url = jss_url self @ url @ ''/id/'' @ str_key k in
           get_request http fromstring self url (w\<lparr>printed := printed w @ [url]\<rparr>))
      | None \<Rightarrow>
          (let url = jss_url self @ url in
           get_request http fromstring self url w))"

text \<open>
  \<^verbatim>\<open>JSSObject.__init__\<close> of \<^verbatim>\<open>jss.py\<close>: data that is \<^verbatim>\<open>None\<close>, an \<^verbatim>\<open>int\<close> or a
  \<^verbatim>\<open>str\<close> is fetched; anything else (an element) is kept as the object's document.
\<close>

datatype init_data = DataNone | DataKey key | DataElement element

record jss_object =
  o_jss :: jss
  o_class :: resource_class
  xml :: element

definition JSSObject_init ::
  "(request \<rightharpoonup> response) \<Rightarrow> (string \<rightharpoonup> element) \<Rightarrow> resource_class \<Rightarrow> jss \<Rightarrow> init_data
     \<Rightarrow> world \<Rightarrow> (error + jss_object) \<times> world" where
  "JSSObject_init http fromstring cls j data w =
     (case data of
        DataElement e \<Rightarrow> (Inr \<lparr>o_jss = j, o_class = cls, xml = e\<rparr>, w)
      | _ \<Rightarrow>
          (case get http fromstring j cls (case data of DataKey k \<Rightarrow> Some k | _ \<Rightarrow> None) w of
             (Inl err, w') \<Rightarrow> (Inl err, w')
           | (Inr e, w') \<Rightarrow> (Inr \<lparr>o_jss = j, o_class = cls, xml = e\<rparr>, w')))"

text \<open>
  The comprehension of \<^verbatim>\<open>JSS.list\<close>: one object per child of the response whose tag is
  not \<^verbatim>\<open>size\<close>, built in document order (\<^verbatim>\<open>item is not None\<close> holds of every child).
\<close>

fun build_list ::
  "(request \<rightharpoonup> response) \<Rightarrow> (string \<rightharpoonup> element) \<Rightarrow> resource_class \<Rightarrow> jss \<Rightarrow> element list
     \<Rightarrow> world \<Rightarrow> (error + jss_object list) \<times> world" where
  "build_list http fromstring cls j [] w = (Inr [], w)"
| "build_list http fromstring cls j (item # items) w =
     (if tag item \<noteq> ''size'' then
        (case JSSObject_init http fromstring cls j (DataElement item) w of
           (Inl err, w') \<Rightarrow> (Inl err, w')
         | (Inr obj, w') \<Rightarrow>
             (case build_list http fromstring cls j items w' of
                (Inl err, w'') \<Rightarrow> (Inl err, w'')
              | (Inr lst, w'') \<Rightarrow> (Inr (obj # lst), w'')))
      else build_list http fromstring cls j items w)"

definition jss_list ::
  "(request \<rightharpoonup> response) \<Rightarrow> (string \<rightharpoonup> element) \<Rightarrow> jss \<Rightarrow> resource_class \<Rightarrow> world
     \<Rightarrow> (error + jss_object list) \<times> world" where
  "jss_list http fromstring self obj_class w =
     (let url = fmt_s (cls_url obj_class);
          url = jss_url self @ url
      in case get_request http fromstring self url w of
           (Inl err, w') \<Rightarrow> (Inl err, w')
         | (Inr xmldata, w') \<Rightarrow> build_list http fromstring obj_class self (children xmldata) w')"

text \<open>
  \<^verbatim>\<open>JSS.post\<close>, \<^verbatim>\<open>JSS.put\<close> and \<^verbatim>\<open>JSS.delete\<close>: each body is \<^verbatim>\<open>pass\<close>. The call
  returns \<^verbatim>\<open>None\<close>, raises nothing and touches nothing outside.
\<close>

definition post :: "jss \<Rightarrow> string \<Rightarrow> world \<Rightarrow> (error + unit) \<times> world" where
  "post self url w = (Inr (), w)"

definition put :: "jss \<Rightarrow> string \<Rightarrow> world \<Rightarrow> (error + unit) \<times> world" where
  "put self url w = (Inr (), w)"


section \<open>File uploads\<close>

text \<open>
  \<^verbatim>\<open>FileUpload.__init__\<close>. Of the session \<^verbatim>\<open>j\<close> only \<^verbatim>\<open>_url\<close> is read. The file
  system is a parameter \<open>fs\<close> (the content of each readable path; \<^verbatim>\<open>open\<close> raises
  on any other) and so is the table behind \<^verbatim>\<open>mimetypes.guess_type\<close>.
  \<^verbatim>\<open>os.path.basename\<close> is what follows the last slash.
\<close>

definition resource_types :: "string list" where
  "resource_types = [''computers'', ''mobiledevices'', ''enrollmentprofiles'',
                     ''peripherals'', ''policies'', ''ebooks'',
                     ''mobiledeviceapplicationsicon'',
                     ''mobiledeviceapplicationsipa'',
                     ''diskencryptionconfigurations'']"

definition id_types :: "string list" where
  "id_types = [''id'', ''name'']"

definition basename :: "string \<Rightarrow> string" where
  "basename p = last (split_path p)"

record file_upload =
  fu_jss :: jss
  resource_type :: string
  id_type :: string
  fu_id :: string
  resource :: "string \<times> string \<times> string option"
  upload_url :: string

text \<open>\<^verbatim>\<open>FileUpload._set_upload_url\<close>, with the class attribute \<^verbatim>\<open>_url = "fileuploads"\<close>.\<close>

definition set_upload_url :: "file_upload \<Rightarrow> file_upload" where
  "set_upload_url self =
     self\<lparr>upload_url :=
       join ''/'' [jss_url (fu_jss self), ''fileuploads'', resource_type self, id_type self,
                   fu_id self]\<rparr>"

definition FileUpload_init ::
  "(string \<Rightarrow> string option) \<Rightarrow> (string \<rightharpoonup> string) \<Rightarrow> jss \<Rightarrow> string \<Rightarrow> string \<Rightarrow> key
     \<Rightarrow> string \<Rightarrow> world \<Rightarrow> (error + file_upload) \<times> world" where
  "FileUpload_init guess_type fs j rtype itype ident res w =
     (if rtype \<in> set resource_types then
        (if itype \<in> set id_types then
           (let content_type = guess_type (basename res) in
            case fs res of
              None \<Rightarrow> (Inl IOError, w)
            | Some _ \<Rightarrow>
                (Inr (set_upload_url
                        \<lparr>fu_jss = j, resource_type = rtype, id_type = itype,
                          fu_id = str_key ident,
                          resource = (basename res, res, content_type),
                          upload_url = []\<rparr>),
                 w\<lparr>opened := opened w @ [res]\<rparr>))
         else (Inl (JSSFileUploadParameterError
                      (''id_type must be one of: '' @ repr_list id_types)), w))
      else (Inl (JSSFileUploadParameterError
                   (''resource_type must be one of: '' @ repr_list resource_types)), w))"

section \<open>Policies\<close>

text \<open>
  In \<^verbatim>\<open>jssobjects.py\<close> an object is itself an element (\<^verbatim>\<open>ElementTree.SubElement(self,
  ...)\<close>, \<^verbatim>\<open>self.find\<close>), so the \<^verbatim>\<open>category\<close> argument of \<^verbatim>\<open>Policy.new\<close> is
  \<^verbatim>\<open>None\<close>, a Category element or a string. An element is true when it has children,
  a string when it is not empty.
\<close>

datatype category_arg = NoCategory | CategoryObject element | CategoryName string

fun category_true :: "category_arg \<Rightarrow> bool" where
  "category_true NoCategory = False"
| "category_true (CategoryObject c) = (children c \<noteq> [])"
| "category_true (CategoryName s) = (s \<noteq> [])"

text \<open>
  Modelled from the spec: the \<^verbatim>\<open>name\<close> accessor of an object (module \<^verbatim>\<open>jssobject\<close>,
  not among the sources) reads the conventional element path \<^verbatim>\<open>name\<close>.
\<close>

fun category_name_text :: "category_arg \<Rightarrow> string option" where
  "category_name_text NoCategory = None"
| "category_name_text (CategoryObject c) = findtext c ''name''"
| "category_name_text (CategoryName s) = Some s"

text \<open>
  Modelled from the spec: \<^verbatim>\<open>set_bool\<close> (module \<^verbatim>\<open>jssobject\<close>, not among the sources)
  serialises a boolean as the literal \<^verbatim>\<open>true\<close> or \<^verbatim>\<open>false\<close>.
\<close>

definition set_bool :: "element \<Rightarrow> bool \<Rightarrow> element" where
  "set_bool location v =
     Element (tag location) (Some (if v then ''true'' else ''false'')) (children location)"

text \<open>\<^verbatim>\<open>ElementTree.SubElement(parent, tag)\<close> makes an element with no text and no children.\<close>

definition SubElement :: "string \<Rightarrow> element" where
  "SubElement t = Element t None []"

text \<open>
  \<^verbatim>\<open>Policy.new\<close>. Each \<^verbatim>\<open>SubElement\<close> call appends to the end of its parent, so the
  document that results holds, after what \<^verbatim>\<open>self\<close> held before, the five blocks below
  with their children in the order of the calls.
\<close>

definition Policy_new :: "element \<Rightarrow> string \<Rightarrow> category_arg \<Rightarrow> element" where
  "Policy_new self name category =
     (let general = Element ''general'' None
            [Element ''name'' (Some name) [],
             set_bool (SubElement ''enabled'') True,
             Element ''frequency'' (Some ''Once per computer'') [],
             Element ''category'' None
               (if category_true category
                then [Element ''name'' (category_name_text category) []]
                else [])];
          scope = Element ''scope'' None
            [SubElement ''computers'',
             SubElement ''computer_groups'',
             SubElement ''buldings'',
             SubElement ''departments'',
             Element ''exclusions'' None
               [SubElement ''computers'',
                SubElement ''computer_groups'',
                SubElement ''buildings'',
                SubElement ''departments'']];
          self_service = Element ''self_service'' None
            [set_bool (SubElement ''use_for_self_service'') True];
          pkg_config = Element ''package_configuration'' None [SubElement ''packages''];
          maintenance = Element ''maintenance'' None [set_bool (SubElement ''recon'') True]
      in Element (tag self) (elem_text self)
           (children self @ [general, scope, self_service, pkg_config, maintenance]))"

text \<open>
  \<^verbatim>\<open>Policy.add_object_to_scope\<close>. The helper \<^verbatim>\<open>add_object_to_path\<close> (module
  \<^verbatim>\<open>jssobject\<close>) is not among the sources and is a parameter: given the object, the path
  and the policy it answers with the policy as changed, or raises.
\<close>

definition add_object_to_scope ::
  "(jss_object \<Rightarrow> string \<Rightarrow> 'd \<Rightarrow> error + 'd) \<Rightarrow> 'd \<Rightarrow> jss_object \<Rightarrow> error + 'd" where
  "add_object_to_scope add_object_to_path self obj =
     (if o_class obj = Computer then add_object_to_path obj ''scope/computers'' self
      else if o_class obj = ComputerGroup then add_object_to_path obj ''scope/computer_groups'' self
      else if o_class obj = Building then add_object_to_path obj ''scope/buildings'' self
      else if o_class obj = Department then add_object_to_path obj ''scope/departments'' self
      else Inl TypeError)"

text \<open>
  \<^verbatim>\<open>Policy.clear_scope\<close>: one call of \<^verbatim>\<open>clear_list\<close> per section, in order, an
  exception of any call ending the loop. \<^verbatim>\<open>clear_list\<close> is a parameter here.
\<close>

definition clear_sections :: "string list" where
  "clear_sections = [''computers'', ''computer_groups'', ''buildings'',
                     ''departments'', ''limit_to_users/user_groups'',
                     ''limitations/users'', ''limitations/user_groups'',
                     ''limitations/network_segments'', ''exclusions/computers'',
                     ''exclusions/computer_groups'', ''exclusions/buildings'',
                     ''exclusions/departments'', ''exclusions/users'',
                     ''exclusions/user_groups'', ''exclusions/network_segments'']"

fun clear_each :: "(string \<Rightarrow> 'd \<Rightarrow> error + 'd) \<Rightarrow> string list \<Rightarrow> 'd \<Rightarrow> error + 'd" where
  "clear_each clear_list [] self = Inr self"
| "clear_each clear_list (section # sections) self =
     (case clear_list (''scope/'' @ section) self of
        Inl err \<Rightarrow> Inl err
      | Inr self' \<Rightarrow> clear_each clear_list sections self')"

definition clear_scope :: "(string \<Rightarrow> 'd \<Rightarrow> error + 'd) \<Rightarrow> 'd \<Rightarrow> error + 'd" where
  "clear_scope clear_list self = clear_each clear_list clear_sections self"

text \<open>
  Modelled from the spec: \<^verbatim>\<open>clear_list\<close> (module \<^verbatim>\<open>jssobject\<close>, not among the sources)
  removes all children of the list element at the path without removing the element
  itself. The element at a path is the first match in document order, as \<^verbatim>\<open>find\<close>
  gives it; \<open>clear_at\<close> rebuilds the document around that element, emptied. The spec
  names no failure for a path that names no element (its \<^verbatim>\<open>find\<close> yields an absent
  result rather than an error); there is then no child to remove and the document is
  left as it is.
\<close>

fun clear_at :: "string list \<Rightarrow> element \<Rightarrow> element"
  and clear_first :: "string \<Rightarrow> string list \<Rightarrow> element list \<Rightarrow> element list" where
  "clear_at [] (Element tg tx cs) = Element tg tx []"
| "clear_at (t # ts) (Element tg tx cs) = Element tg tx (clear_first t ts cs)"
| "clear_first t ts [] = []"
| "clear_first t ts (c # cs) =
     (if tag c = t \<and> select_from ts [c] \<noteq> [] then clear_at ts c # cs
      else c # clear_first t ts cs)"

definition clear_list :: "string \<Rightarrow> element \<Rightarrow> error + element" where
  "clear_list path self =
     (case find_elem self path of
        None \<Rightarrow> Inr self
      | Some _ \<Rightarrow> Inr (clear_at (split_path path) self))"




section \<open>Properties\<close>

subsection \<open>LDAP group membership\<close>

text \<open>
  C1. When the membership query is answered with a document, \<^verbatim>\<open>is_user_in_group\<close>
  returns false for a response with exactly one record, returns true exactly when the
  response has two records and both \<^verbatim>\<open>ldap_user/username\<close> equals the queried user and
  \<^verbatim>\<open>ldap_user/is_member\<close> is \<^verbatim>\<open>Yes\<close>, and raises the get error
  \<^verbatim>\<open>Unexpected response.\<close> for every response with three or more records.
\<close>

theorem is_user_in_group_by_length:
  assumes "jss_get (url @ ''/group/'' @ grp @ ''/user/'' @ user) = Inr response"
  shows "(length (children response) = 1 \<longrightarrow> is_user_in_group jss_get url user grp = Inr False)
    \<and> (is_user_in_group jss_get url user grp = Inr True \<longleftrightarrow>
         (length (children response) = 2
          \<and> findtext response ''ldap_user/username'' = Some user
          \<and> findtext response ''ldap_user/is_member'' = Some ''Yes''))
    \<and> (3 \<le> length (children response) \<longrightarrow>
         is_user_in_group jss_get url user grp = Inl (JSSGetError ''Unexpected response.''))"
  using assms by (simp add: is_user_in_group_def Let_def)

theorem is_user_in_group_by_length_witness:
  "is_user_in_group (\<lambda>_. Inr (Element ''ldap_users'' None
       [Element ''size'' (Some ''1'') [],
        Element ''ldap_user'' None
          [Element ''username'' (Some ''alice'') [], Element ''is_member'' (Some ''Yes'') []]]))
     ''/ldapservers/id/1'' ''alice'' ''staff'' = Inr True
   \<and> is_user_in_group (\<lambda>_. Inr (Element ''ldap_users'' None [Element ''size'' (Some ''0'') []]))
     ''/ldapservers/id/1'' ''alice'' ''staff'' = Inr False
   \<and> is_user_in_group (\<lambda>_. Inr (Element ''ldap_users'' None
       [Element ''size'' (Some ''2'') [], Element ''ldap_user'' None [], Element ''ldap_user'' None []]))
     ''/ldapservers/id/1'' ''alice'' ''staff'' = Inl (JSSGetError ''Unexpected response.'')"
  using
    is_user_in_group_by_length [of "\<lambda>_. Inr (Element ''ldap_users'' None
       [Element ''size'' (Some ''1'') [],
        Element ''ldap_user'' None
          [Element ''username'' (Some ''alice'') [], Element ''is_member'' (Some ''Yes'') []]])"
      "''/ldapservers/id/1''" "''staff''" "''alice''"]
    is_user_in_group_by_length [of "\<lambda>_. Inr (Element ''ldap_users'' None [Element ''size'' (Some ''0'') []])"
      "''/ldapservers/id/1''" "''staff''" "''alice''"]
    is_user_in_group_by_length [of "\<lambda>_. Inr (Element ''ldap_users'' None
       [Element ''size'' (Some ''2'') [], Element ''ldap_user'' None [], Element ''ldap_user'' None []])"
      "''/ldapservers/id/1''" "''staff''" "''alice''"]
  by (simp add: findtext_def find_elem_def iterfind_def select_from_def prepare_child_def)

subsection \<open>Device accessors\<close>

text \<open>
  C8, as the claim states it, fails: a document with a secondary address and no primary
  one makes \<^verbatim>\<open>mac_addresses\<close> return a list, whose first entry is \<^verbatim>\<open>None\<close>.
\<close>

theorem mac_addresses_list_without_primary:
  "findtext (Element ''computer'' None [Element ''general'' None
        [Element ''alt_mac_address'' (Some ''00:11'') []]]) ''general/mac_address'' = None
   \<and> mac_addresses (Element ''computer'' None [Element ''general'' None
        [Element ''alt_mac_address'' (Some ''00:11'') []]]) = Some [None, Some ''00:11'']"
  by (simp add: mac_addresses_def findtext_def find_elem_def iterfind_def select_from_def prepare_child_def)

text \<open>
  C8, amended. For every Computer document with no non-empty text at
  \<^verbatim>\<open>general/alt_mac_address\<close> the accessor returns \<^verbatim>\<open>None\<close>, whatever stands at
  \<^verbatim>\<open>general/mac_address\<close> (so never a one-element list); when the secondary address is
  present and non-empty it returns the two-entry list of what \<^verbatim>\<open>findtext\<close> gives for
  the primary path (\<^verbatim>\<open>None\<close> when that is absent) and the secondary address.
\<close>

theorem mac_addresses_by_secondary:
  "(\<not> truthy (findtext self ''general/alt_mac_address'') \<longrightarrow> mac_addresses self = None)
   \<and> (truthy (findtext self ''general/alt_mac_address'') \<longrightarrow>
        mac_addresses self = Some [findtext self ''general/mac_address'',
                                   findtext self ''general/alt_mac_address''])"
  by (simp add: mac_addresses_def)

theorem mac_addresses_by_secondary_witness:
  "mac_addresses (Element ''computer'' None [Element ''general'' None
        [Element ''mac_address'' (Some ''00:10'') []]]) = None
   \<and> mac_addresses (Element ''computer'' None [Element ''general'' None
        [Element ''mac_address'' (Some ''00:10'') [],
         Element ''alt_mac_address'' (Some ''00:11'') []]]) = Some [Some ''00:10'', Some ''00:11'']"
  using
    mac_addresses_by_secondary [of "Element ''computer'' None [Element ''general'' None
        [Element ''mac_address'' (Some ''00:10'') []]]"]
    mac_addresses_by_secondary [of "Element ''computer'' None [Element ''general'' None
        [Element ''mac_address'' (Some ''00:10'') [],
         Element ''alt_mac_address'' (Some ''00:11'') []]]"]
  by (simp add: findtext_def find_elem_def iterfind_def select_from_def prepare_child_def)

text \<open>
  C9. For every MobileDevice document with no non-empty text at
  \<^verbatim>\<open>general/bluetooth_mac_address\<close>, \<^verbatim>\<open>bluetooth_mac_address\<close> returns what
  \<^verbatim>\<open>findtext\<close> gives for \<^verbatim>\<open>general/mac_address\<close>; and it returns \<^verbatim>\<open>None\<close> only
  when the Bluetooth path has no text and the primary path has no element.
\<close>

theorem bluetooth_mac_address_fallback:
  "(\<not> truthy (findtext self ''general/bluetooth_mac_address'') \<longrightarrow>
       bluetooth_mac_address self = findtext self ''general/mac_address'')
   \<and> (bluetooth_mac_address self = None \<longrightarrow>
       \<not> truthy (findtext self ''general/bluetooth_mac_address'')
       \<and> findtext self ''general/mac_address'' = None)"
  by (auto simp add: bluetooth_mac_address_def py_or_def)

theorem bluetooth_mac_address_fallback_witness:
  "bluetooth_mac_address (Element ''mobile_device'' None [Element ''general'' None
        [Element ''mac_address'' (Some ''00:10'') []]]) = Some ''00:10''
   \<and> bluetooth_mac_address (Element ''mobile_device'' None [Element ''general'' None []]) = None
   \<and> findtext (Element ''mobile_device'' None [Element ''general'' None []])
        ''general/mac_address'' = None"
  using
    bluetooth_mac_address_fallback [of "Element ''mobile_device'' None [Element ''general'' None
        [Element ''mac_address'' (Some ''00:10'') []]]"]
    bluetooth_mac_address_fallback [of "Element ''mobile_device'' None [Element ''general'' None []]"]
  by (simp add: findtext_def find_elem_def iterfind_def select_from_def prepare_child_def)

subsection \<open>The session of \<^verbatim>\<open>jss.py\<close>\<close>

lemma get_request_sent:
  "sent (snd (get_request http fromstring self url w)) =
     sent w @ [\<lparr>req_method = GET, req_url = url, req_auth = (jss_user self, jss_password self),
                req_verify = ssl_verify self, req_body = None\<rparr>]"
  by (simp add: get_request_def Let_def split: option.splits)

text \<open>
  What \<^verbatim>\<open>get_request\<close> does with an answer, by its status: 401 and 404 raise, every
  other status, also one from 400 on, goes to the parser.
\<close>

lemma get_request_by_status:
  assumes "http \<lparr>req_method = GET, req_url = url, req_auth = (jss_user self, jss_password self),
                  req_verify = ssl_verify self, req_body = None\<rparr> = Some response"
  shows "fst (get_request http fromstring self url w) =
           (if status_code response = 401 then
              Inl (JSSAuthenticationError
                     ''Authentication error: check the api username and password'')
            else if status_code response = 404 then
              Inl (JSSGetError (''Object '' @ url @ '' does not exist!''))
            else (case fromstring (resp_text response) of
                    None \<Rightarrow> Inl ParseError
                  | Some xmldata \<Rightarrow> Inr xmldata))"
  using assms by (simp add: get_request_def Let_def split: option.splits)

text \<open>
  C2 fails on the code. The claim asks that a response whose status is at least 400 and
  neither 401 nor 404 make the request fail with an error that carries the status code
  and the raw body. \<^verbatim>\<open>get_request\<close> answers a response with status 500 and a
  well-formed body with the parsed body: it returns, and raises nothing.
\<close>

theorem get_request_status_500_returns:
  "fst (get_request
     [\<lparr>req_method = GET, req_url = ''https://jss.example/JSSResource/policies'',
        req_auth = (''api'', ''secret''), req_verify = True, req_body = None\<rparr>
        \<mapsto> \<lparr>status_code = 500, resp_text = ''<error/>''\<rparr>]
     [''<error/>'' \<mapsto> Element ''error'' None []]
     \<lparr>jss_url = ''https://jss.example/JSSResource'', jss_user = ''api'',
       jss_password = ''secret'', ssl_verify = True\<rparr>
     ''https://jss.example/JSSResource/policies''
     \<lparr>sent = [], printed = [], opened = []\<rparr>) = Inr (Element ''error'' None [])"
  by (simp add: get_request_def)

lemma build_list_xml:
  "build_list http fromstring cls j items w = (Inr lst, w') \<Longrightarrow>
     map xml lst = filter (\<lambda>item. tag item \<noteq> ''size'') items"
proof (induction items arbitrary: lst w w')
  case Nil
  then show ?case by simp
next
  case (Cons item items)
  show ?case
  proof (cases "tag item = ''size''")
    case True
    with Cons show ?thesis by simp
  next
    case False
    with Cons.prems obtain rest where
      r: "build_list http fromstring cls j items w = (Inr rest, w')"
      and l: "lst = \<lparr>o_jss = j, o_class = cls, xml = item\<rparr> # rest"
      by (auto simp: JSSObject_init_def split: prod.splits sum.splits)
    from Cons.IH [OF r] l False show ?thesis by simp
  qed
qed

text \<open>
  C5. For every resource class and every response, a list that \<^verbatim>\<open>JSS.list\<close> returns
  holds no object whose element is tagged \<^verbatim>\<open>size\<close>.
\<close>

theorem jss_list_no_size:
  assumes "jss_list http fromstring self obj_class w = (Inr lst, w')"
  shows "\<forall>obj \<in> set lst. tag (xml obj) \<noteq> ''size''"
proof -
  from assms obtain xmldata w1 where
    "build_list http fromstring obj_class self (children xmldata) w1 = (Inr lst, w')"
    by (auto simp: jss_list_def Let_def split: prod.splits sum.splits)
  then have "map xml lst = filter (\<lambda>item. tag item \<noteq> ''size'') (children xmldata)"
    by (rule build_list_xml)
  then have "set (map xml lst) \<subseteq> {item. tag item \<noteq> ''size''}"
    by auto
  then show ?thesis by auto
qed

theorem jss_list_no_size_witness:
  "jss_list
       [\<lparr>req_method = GET, req_url = ''https://jss.example/JSSResource/policies'',
        req_auth = (''api'', ''secret''), req_verify = True, req_body = None\<rparr>
          \<mapsto> \<lparr>status_code = 200, resp_text = ''<policies/>''\<rparr>]
       [''<policies/>'' \<mapsto> Element ''policies'' None
          [Element ''size'' (Some ''2'') [], Element ''policy'' (Some ''a'') [],
           Element ''policy'' (Some ''b'') []]]
       \<lparr>jss_url = ''https://jss.example/JSSResource'', jss_user = ''api'',
       jss_password = ''secret'', ssl_verify = True\<rparr>
       Policy
       \<lparr>sent = [], printed = [], opened = []\<rparr>
     = (Inr [\<lparr>o_jss = \<lparr>jss_url = ''https://jss.example/JSSResource'', jss_user = ''api'',
       jss_password = ''secret'', ssl_verify = True\<rparr>,
               o_class = Policy, xml = Element ''policy'' (Some ''a'') []\<rparr>,
             \<lparr>o_jss = \<lparr>jss_url = ''https://jss.example/JSSResource'', jss_user = ''api'',
       jss_password = ''secret'', ssl_verify = True\<rparr>,
               o_class = Policy, xml = Element ''policy'' (Some ''b'') []\<rparr>],
        \<lparr>sent = [\<lparr>req_method = GET, req_url = ''https://jss.example/JSSResource/policies'',
        req_auth = (''api'', ''secret''), req_verify = True, req_body = None\<rparr>],
          printed = [], opened = []\<rparr>)
   \<and> tag (Element ''policy'' (Some ''a'') []) \<noteq> ''size''
   \<and> tag (Element ''policy'' (Some ''b'') []) \<noteq> ''size''"
proof -
  have run: "jss_list
       [\<lparr>req_method = GET, req_url = ''https://jss.example/JSSResource/policies'',
        req_auth = (''api'', ''secret''), req_verify = True, req_body = None\<rparr>
          \<mapsto> \<lparr>status_code = 200, resp_text = ''<policies/>''\<rparr>]
       [''<policies/>'' \<mapsto> Element ''policies'' None
          [Element ''size'' (Some ''2'') [], Element ''policy'' (Some ''a'') [],
           Element ''policy'' (Some ''b'') []]]
       \<lparr>jss_url = ''https://jss.example/JSSResource'', jss_user = ''api'',
       jss_password = ''secret'', ssl_verify = True\<rparr>
       Policy
       \<lparr>sent = [], printed = [], opened = []\<rparr>
     = (Inr [\<lparr>o_jss = \<lparr>jss_url = ''https://jss.example/JSSResource'', jss_user = ''api'',
       jss_password = ''secret'', ssl_verify = True\<rparr>,
               o_class = Policy, xml = Element ''policy'' (Some ''a'') []\<rparr>,
             \<lparr>o_jss = \<lparr>jss_url = ''https://jss.example/JSSResource'', jss_user = ''api'',
       jss_password = ''secret'', ssl_verify = True\<rparr>,
               o_class = Policy, xml = Element ''policy'' (Some ''b'') []\<rparr>],
        \<lparr>sent = [\<lparr>req_method = GET, req_url = ''https://jss.example/JSSResource/policies'',
        req_auth = (''api'', ''secret''), req_verify = True, req_body = None\<rparr>],
          printed = [], opened = []\<rparr>)"
    by (simp add: jss_list_def Let_def get_request_def Policy_def JSSObject_def JSSObject_init_def)
  from jss_list_no_size [OF run] show ?thesis
    using run by simp
qed

text \<open>
  C7. \<^verbatim>\<open>JSS.get\<close> with the class \<^verbatim>\<open>Policy\<close> and the key 42 sends its request to
  exactly the session's base address followed by \<^verbatim>\<open>/policies/id/42\<close>. For every class
  and key the address is the base, the class's \<^verbatim>\<open>_url\<close>, \<^verbatim>\<open>/id/\<close> and the key: it
  depends on nothing else, so two calls with the same session, class and key address the
  same path whatever the service, the parser and the history are.
\<close>

theorem get_policy_42_address:
  "map req_url (sent (snd (get http fromstring self Policy (Some (IntKey 42)) w))) =
     map req_url (sent w) @ [jss_url self @ ''/policies/id/42'']
   \<and> map req_url (sent (snd (get http fromstring self obj_class (Some k) w))) =
     map req_url (sent w) @ [jss_url self @ fmt_s (cls_url obj_class) @ ''/id/'' @ str_key k]
   \<and> last (map req_url (sent (snd (get http fromstring self obj_class (Some k) w)))) =
     last (map req_url (sent (snd (get http' fromstring' self obj_class (Some k) w'))))"
  by (simp add: get_def Let_def get_request_sent Policy_def JSSObject_def str_int_def
        str_nat.simps [of 42] str_nat.simps [of 4] digit_char_def)

subsection \<open>File uploads\<close>

text \<open>
  C4. Constructing a FileUpload with a resource type outside the nine enumerated ones, or
  with an identifier type other than \<^verbatim>\<open>id\<close> and \<^verbatim>\<open>name\<close>, fails with a
  \<^verbatim>\<open>JSSFileUploadParameterError\<close>, and the outside is left as it was: no request has
  been sent and no file opened.
\<close>

theorem FileUpload_init_rejects:
  assumes "rtype \<notin> set [''computers'', ''mobiledevices'', ''enrollmentprofiles'',
                          ''peripherals'', ''policies'', ''ebooks'',
                          ''mobiledeviceapplicationsicon'', ''mobiledeviceapplicationsipa'',
                          ''diskencryptionconfigurations'']
           \<or> itype \<notin> set [''id'', ''name'']"
  shows "\<exists>msg. FileUpload_init guess_type fs j rtype itype ident res w =
           (Inl (JSSFileUploadParameterError msg), w)"
  using assms by (auto simp: FileUpload_init_def resource_types_def id_types_def)

theorem FileUpload_init_rejects_witness:
  "FileUpload_init Map.empty [''/tmp/icon.png'' \<mapsto> ''PNG'']
      \<lparr>jss_url = ''https://jss.example/JSSResource'', jss_user = ''api'',
        jss_password = ''secret'', ssl_verify = True\<rparr>
      ''widgets'' ''id'' (IntKey 7) ''/tmp/icon.png''
      \<lparr>sent = [], printed = [], opened = []\<rparr>
   = (Inl (JSSFileUploadParameterError
        (''resource_type must be one of: '' @ repr_list resource_types)),
      \<lparr>sent = [], printed = [], opened = []\<rparr>)"
  using FileUpload_init_rejects [of "''widgets''" "''id''" Map.empty
      "[''/tmp/icon.png'' \<mapsto> ''PNG'']"
      "\<lparr>jss_url = ''https://jss.example/JSSResource'', jss_user = ''api'',
        jss_password = ''secret'', ssl_verify = True\<rparr>"
      "IntKey 7" "''/tmp/icon.png''" "\<lparr>sent = [], printed = [], opened = []\<rparr>"]
  by (simp add: FileUpload_init_def resource_types_def)

lemma FileUpload_init_accepts_example:
  "FileUpload_init Map.empty [''/tmp/icon.png'' \<mapsto> ''PNG'']
      \<lparr>jss_url = ''https://jss.example/JSSResource'', jss_user = ''api'',
        jss_password = ''secret'', ssl_verify = True\<rparr>
      ''policies'' ''id'' (IntKey 7) ''/tmp/icon.png''
      \<lparr>sent = [], printed = [], opened = []\<rparr>
   = (Inr \<lparr>fu_jss = \<lparr>jss_url = ''https://jss.example/JSSResource'', jss_user = ''api'',
                       jss_password = ''secret'', ssl_verify = True\<rparr>,
            resource_type = ''policies'', id_type = ''id'', fu_id = ''7'',
            resource = (''icon.png'', ''/tmp/icon.png'', None),
            upload_url = ''https://jss.example/JSSResource/fileuploads/policies/id/7''\<rparr>,
      \<lparr>sent = [], printed = [], opened = [''/tmp/icon.png'']\<rparr>)"
  by (simp add: FileUpload_init_def resource_types_def id_types_def set_upload_url_def
        basename_def str_int_def str_nat.simps [of 7] digit_char_def)

subsection \<open>Capability flags\<close>


lemma build_list_world:
  "build_list http fromstring cls j items w = (r, w') \<Longrightarrow> w' = w"
proof (induction items arbitrary: r)
  case Nil
  then show ?case by simp
next
  case (Cons item items)
  then show ?case
    by (auto simp: JSSObject_init_def split: if_splits prod.splits sum.splits)
qed

text \<open>The same holds of every class and every service: listing always sends its GET.\<close>

lemma jss_list_sends_whatever_the_flags:
  "sent (snd (jss_list http fromstring self obj_class w)) =
     sent w @ [\<lparr>req_method = GET, req_url = jss_url self @ fmt_s (cls_url obj_class),
                req_auth = (jss_user self, jss_password self),
                req_verify = ssl_verify self, req_body = None\<rparr>]"
proof -
  let ?url = "jss_url self @ fmt_s (cls_url obj_class)"
  obtain r w1 where g: "get_request http fromstring self ?url w = (r, w1)"
    by (cases "get_request http fromstring self ?url w")
  from get_request_sent [of http fromstring self ?url w] g
  have s1: "sent w1 = sent w @ [\<lparr>req_method = GET, req_url = ?url,
                req_auth = (jss_user self, jss_password self),
                req_verify = ssl_verify self, req_body = None\<rparr>]"
    by simp
  show ?thesis
  proof (cases r)
    case (Inl err)
    with g s1 show ?thesis by (simp add: jss_list_def Let_def)
  next
    case (Inr xmldata)
    obtain r2 w2 where b: "build_list http fromstring obj_class self (children xmldata) w1 = (r2, w2)"
      by (cases "build_list http fromstring obj_class self (children xmldata) w1")
    from build_list_world [OF b] have "w2 = w1" .
    with g s1 Inr b show ?thesis by (simp add: jss_list_def Let_def)
  qed
qed

subsection \<open>Policy scope\<close>

lemma Building_not_others: "Building \<noteq> Computer" "Building \<noteq> ComputerGroup"
  by (simp_all add: Building_def Computer_def ComputerGroup_def JSSObject_def)

text \<open>
  C10. A policy built by \<^verbatim>\<open>new\<close> on a fresh element has a scope whose children are
  tagged \<^verbatim>\<open>computers\<close>, \<^verbatim>\<open>computer_groups\<close>, \<^verbatim>\<open>buldings\<close>, \<^verbatim>\<open>departments\<close> and
  \<^verbatim>\<open>exclusions\<close>: \<^verbatim>\<open>scope/buldings\<close> names the element that \<^verbatim>\<open>new\<close> created and
  \<^verbatim>\<open>scope/buildings\<close> names nothing. \<^verbatim>\<open>add_object_to_scope\<close> hands a Building to
  \<^verbatim>\<open>add_object_to_path\<close> with the path \<^verbatim>\<open>scope/buildings\<close>, and the paths that
  \<^verbatim>\<open>clear_scope\<close> hands to \<^verbatim>\<open>clear_list\<close> are \<^verbatim>\<open>scope/\<close> followed by each section,
  \<^verbatim>\<open>scope/buildings\<close> among them.
\<close>

theorem Policy_new_buldings:
  "map_option (\<lambda>scope. map tag (children scope))
      (find_elem (Policy_new (Element t x []) name category) ''scope'')
     = Some [''computers'', ''computer_groups'', ''buldings'', ''departments'', ''exclusions'']
   \<and> find_elem (Policy_new (Element t x []) name category) ''scope/buldings''
     = Some (Element ''buldings'' None [])
   \<and> find_elem (Policy_new (Element t x []) name category) ''scope/buildings'' = None
   \<and> add_object_to_scope add_object_to_path self \<lparr>o_jss = j, o_class = Building, xml = b\<rparr>
     = add_object_to_path \<lparr>o_jss = j, o_class = Building, xml = b\<rparr> ''scope/buildings'' self
   \<and> clear_scope (\<lambda>path paths. Inr (paths @ [path])) []
     = Inr (map (\<lambda>section. ''scope/'' @ section) clear_sections)
   \<and> ''scope/buildings'' \<in> set (map (\<lambda>section. ''scope/'' @ section) clear_sections)"
  by (simp add: Policy_new_def find_elem_def iterfind_def select_from_def prepare_child_def
       SubElement_def set_bool_def add_object_to_scope_def Building_not_others
       clear_scope_def clear_sections_def)

subsection \<open>Clearing a list in place\<close>


lemma select_from_Nil [simp]: "select_from ts [] = []"
  by (induction ts) (simp_all add: select_from_def prepare_child_def)

lemma select_from_empty_path [simp]: "select_from [] es = es"
  by (simp add: select_from_def)





lemma tag_clear_at [simp]: "tag (clear_at ts e) = tag e"
  by (cases e; cases ts) simp_all












end
